theory Spec2Isabelle
  imports Main "HOL-Library.Word" "HOL-Library.Sublist"
begin

section \<open>JavaScript strings\<close>

text \<open>
  A JavaScript string is a sequence of UTF-16 code units; \<open>length\<close>, \<open>startsWith\<close>,
  \<open>trim\<close> and the relational operators all work on code units. The literals of the
  source are ASCII and are written through \<open>str\<close>.
\<close>

type_synonym jsstring = "16 word list"

definition str :: "string \<Rightarrow> jsstring" where
  "str s = map of_char s"

text \<open>
  \<open>String.prototype.startsWith\<close> with one argument.
\<close>

definition startsWith :: "jsstring \<Rightarrow> jsstring \<Rightarrow> bool" where
  "startsWith s p \<longleftrightarrow> take (length p) s = p"

text \<open>
  The code units that \<open>trim\<close> and \<open>parseFloat\<close> strip: ECMAScript's WhiteSpace
  (TAB, VT, FF, SP, NBSP, ZWNBSP and the category Zs) and LineTerminator (LF, CR, LS, PS).
\<close>

definition isWhiteSpace :: "16 word \<Rightarrow> bool" where
  "isWhiteSpace c \<longleftrightarrow>
     c = 0x0009 \<or> c = 0x000A \<or> c = 0x000B \<or> c = 0x000C \<or> c = 0x000D \<or> c = 0x0020 \<or>
     c = 0x00A0 \<or> c = 0x1680 \<or> (0x2000 \<le> c \<and> c \<le> 0x200A) \<or> c = 0x2028 \<or>
     c = 0x2029 \<or> c = 0x202F \<or> c = 0x205F \<or> c = 0x3000 \<or> c = 0xFEFF"

definition trimStart :: "jsstring \<Rightarrow> jsstring" where
  "trimStart s = dropWhile isWhiteSpace s"

definition trimEnd :: "jsstring \<Rightarrow> jsstring" where
  "trimEnd s = rev (dropWhile isWhiteSpace (rev s))"

definition trim :: "jsstring \<Rightarrow> jsstring" where
  "trim s = trimEnd (trimStart s)"

text \<open>
  \<open>a < b\<close> on two strings compares code units from the left; a proper prefix is smaller.
  \<open>a >= b\<close> is the negation of \<open>a < b\<close>.
\<close>

fun js_lt :: "jsstring \<Rightarrow> jsstring \<Rightarrow> bool" where
  "js_lt [] [] = False"
| "js_lt [] (y # ys) = True"
| "js_lt (x # xs) [] = False"
| "js_lt (x # xs) (y # ys) = (x < y \<or> (x = y \<and> js_lt xs ys))"

definition js_ge :: "jsstring \<Rightarrow> jsstring \<Rightarrow> bool" where
  "js_ge a b \<longleftrightarrow> \<not> js_lt a b"

text \<open>
  \<open>Array.prototype.join\<close> on an array of strings.
\<close>

fun join :: "jsstring \<Rightarrow> jsstring list \<Rightarrow> jsstring" where
  "join sep [] = []"
| "join sep [x] = x"
| "join sep (x # y # ys) = x @ sep @ join sep (y # ys)"

section \<open>parseFloat\<close>

text \<open>
  \<open>parseFloat\<close> strips leading white space and reads the longest prefix that is a
  StrDecimalLiteral: an optional sign, then \<open>Infinity\<close>, or digits with an optional
  fraction, or a fraction alone, then an optional exponent. With no such prefix the
  result is NaN. The parsed literal is kept exactly, as sign, digits and decimal
  exponent (\<open>Finite neg m e\<close> stands for \<open>\<plusminus>m \<times> 10\<^sup>e\<close>); the two comparisons with
  zero below account for the rounding to the nearest double.
\<close>

datatype number = NaN | Infinite bool | Finite bool nat int

definition isDigit :: "16 word \<Rightarrow> bool" where
  "isDigit c \<longleftrightarrow> 0x30 \<le> c \<and> c \<le> 0x39"

definition digitsValue :: "jsstring \<Rightarrow> nat" where
  "digitsValue ds = foldl (\<lambda>a c. 10 * a + (unat c - 48)) 0 ds"

definition expDigits :: "bool \<Rightarrow> jsstring \<Rightarrow> int" where
  "expDigits neg r =
     (let ds = takeWhile isDigit r
      in if ds = [] then 0
         else if neg then - int (digitsValue ds) else int (digitsValue ds))"

definition parseExponent :: "jsstring \<Rightarrow> int" where
  "parseExponent r =
     (if startsWith r (str ''e'') \<or> startsWith r (str ''E'') then
        (if startsWith (tl r) (str ''+'') then expDigits False (tl (tl r))
         else if startsWith (tl r) (str ''-'') then expDigits True (tl (tl r))
         else expDigits False (tl r))
      else 0)"

definition parseFloat :: "jsstring \<Rightarrow> number" where
  "parseFloat s =
     (let t = trimStart s;
          neg = startsWith t (str ''-'');
          u = (if startsWith t (str ''-'') \<or> startsWith t (str ''+'') then tl t else t)
      in if startsWith u (str ''Infinity'') then Infinite neg
         else
           (let ip = takeWhile isDigit u;
                r1 = dropWhile isDigit u;
                hasDot = startsWith r1 (str ''.'');
                fp = (if hasDot then takeWhile isDigit (tl r1) else []);
                r2 = (if hasDot then dropWhile isDigit (tl r1) else r1)
            in if ip = [] \<and> fp = [] then NaN
               else Finite neg (digitsValue (ip @ fp)) (parseExponent r2 - int (length fp))))"

text \<open>
  A positive literal becomes the double \<open>+0\<close> exactly when it is at most \<open>2\<^sup>-\<^sup>1\<^sup>0\<^sup>7\<^sup>5\<close>,
  half of the smallest subnormal (the tie goes to the even neighbour, which is zero).
\<close>

definition roundsToZero :: "nat \<Rightarrow> int \<Rightarrow> bool" where
  "roundsToZero m e \<longleftrightarrow> e < 0 \<and> m * 2 ^ 1075 \<le> 10 ^ nat (- e)"

text \<open>
  \<open>x <= 0\<close> and \<open>x > 0\<close> on the resulting double. Both are false for NaN; a negative
  sign gives a value that is negative or \<open>-0\<close>.
\<close>

fun num_le_zero :: "number \<Rightarrow> bool" where
  "num_le_zero NaN = False"
| "num_le_zero (Infinite neg) = neg"
| "num_le_zero (Finite neg m e) = (neg \<or> m = 0 \<or> roundsToZero m e)"

fun num_gt_zero :: "number \<Rightarrow> bool" where
  "num_gt_zero NaN = False"
| "num_gt_zero (Infinite neg) = (\<not> neg)"
| "num_gt_zero (Finite neg m e) = (\<not> neg \<and> m \<noteq> 0 \<and> \<not> roundsToZero m e)"

section \<open>Component state\<close>

text \<open>
  The form fields are the strings the input elements deliver. The sport type comes from
  a select element over the eight listed values. A turf loaded for editing may carry its
  price as a number; \<open>!p\<close> and \<open>parseFloat(p)\<close> then decide as they do on its decimal
  string.
\<close>

datatype sportType =
  FOOTBALL | CRICKET | BADMINTON | TENNIS | BASKETBALL | VOLLEYBALL | HOCKEY | FUTSAL

record formData =
  name :: jsstring
  phone :: jsstring
  location :: jsstring
  type :: sportType
  pricePerSlot :: jsstring
  description :: jsstring
  operatingStartTime :: jsstring
  operatingEndTime :: jsstring

text \<open>
  A \<open>File\<close> as the handlers read it: its name, its declared media type and its size
  in bytes.
\<close>

record jsfile =
  file_name :: jsstring
  file_type :: jsstring
  file_size :: nat

record state =
  formData :: formData
  error :: jsstring
  loading :: bool
  imageFiles :: "jsfile list"
  existingImages :: "jsstring list"
  imagePreviewUrls :: "jsstring list"
  uploadingImages :: bool

definition setError :: "jsstring \<Rightarrow> state \<Rightarrow> state" where
  "setError msg st = st\<lparr>error := msg\<rparr>"

section \<open>validateForm\<close>

text \<open>
  The function returns \<open>false\<close> after setting the error message of the first check
  that fires, and \<open>true\<close> with the state untouched when none does.
\<close>

definition validateForm :: "state \<Rightarrow> bool \<times> state" where
  "validateForm st =
     (let fd = formData st
      in if trim (name fd) = [] then
           (False, setError (str ''Turf name is required'') st)
         else if length (phone fd) < 10 then
           (False, setError (str ''Phone number must be at least 10 digits'') st)
         else if trim (location fd) = [] then
           (False, setError (str ''Location is required'') st)
         else if pricePerSlot fd = [] \<or> num_le_zero (parseFloat (pricePerSlot fd)) then
           (False, setError (str ''Valid price is required'') st)
         else if js_ge (operatingStartTime fd) (operatingEndTime fd) then
           (False, setError (str ''End time must be after start time'') st)
         else (True, st))"

text \<open>
  The error kinds of the validation engine, and the message the component shows for each.
\<close>

datatype validation_error =
  EmptyName | PhoneTooShort | EmptyLocation | InvalidPrice | InvalidTimeRange

fun message :: "validation_error \<Rightarrow> jsstring" where
  "message EmptyName = str ''Turf name is required''"
| "message PhoneTooShort = str ''Phone number must be at least 10 digits''"
| "message EmptyLocation = str ''Location is required''"
| "message InvalidPrice = str ''Valid price is required''"
| "message InvalidTimeRange = str ''End time must be after start time''"

text \<open>
  \<open>fails_with st e\<close>: on the state \<open>st\<close>, \<open>validateForm\<close> returns \<open>false\<close> and leaves the
  message of \<open>e\<close> as the error.
\<close>

definition fails_with :: "state \<Rightarrow> validation_error \<Rightarrow> bool" where
  "fails_with st e \<longleftrightarrow> validateForm st = (False, setError (message e) st)"

definition succeeds :: "state \<Rightarrow> bool" where
  "succeeds st \<longleftrightarrow> validateForm st = (True, st)"

section \<open>Image selection\<close>

definition isImage :: "jsfile \<Rightarrow> bool" where
  "isImage f \<longleftrightarrow> startsWith (file_type f) (str ''image/'')"

definition oversized :: "jsfile \<Rightarrow> bool" where
  "oversized f \<longleftrightarrow> file_size f > 10 * 1024 * 1024"

definition notImageMessage :: "jsfile \<Rightarrow> jsstring" where
  "notImageMessage f = file_name f @ str '' is not a valid image file''"

definition oversizeMessage :: "jsfile list \<Rightarrow> jsstring" where
  "oversizeMessage fs =
     str ''Some files exceed 10MB limit: '' @ join (str '', '') (map file_name fs)"

text \<open>
  \<open>handleImageSelect\<close> on the files of the change event. The filter callback calls
  \<open>setError\<close> once for each file that is not an image, in selection order; the second
  component of the result lists the messages of all \<open>setError\<close> calls of the handler
  in the order they are made. With an oversized file among the images the handler sets
  the aggregate message and returns before \<open>setImageFiles\<close>. The previews are read
  asynchronously afterwards; each completed read is one \<open>onloadend\<close> step.
\<close>

definition handleImageSelect :: "jsfile list \<Rightarrow> state \<Rightarrow> state \<times> jsstring list" where
  "handleImageSelect files st =
     (let validFiles = filter isImage files;
          warnings = map notImageMessage (filter (\<lambda>f. \<not> isImage f) files);
          st1 = fold setError warnings st;
          oversizedFiles = filter oversized validFiles
      in if length oversizedFiles > 0 then
           (setError (oversizeMessage oversizedFiles) st1,
            warnings @ [oversizeMessage oversizedFiles])
         else (st1\<lparr>imageFiles := imageFiles st1 @ validFiles\<rparr>, warnings))"

text \<open>
  The \<open>onloadend\<close> callback of one \<open>FileReader\<close>: the preview is appended when the read
  completes.
\<close>

definition onloadend :: "jsstring \<Rightarrow> state \<Rightarrow> state" where
  "onloadend result st = st\<lparr>imagePreviewUrls := imagePreviewUrls st @ [result]\<rparr>"

text \<open>
  \<open>prev.filter((_, i) => i !== index)\<close>.
\<close>

definition removeAt :: "nat \<Rightarrow> 'a list \<Rightarrow> 'a list" where
  "removeAt index xs = map snd (filter (\<lambda>(i, x). i \<noteq> index) (enumerate 0 xs))"

definition removeNewImage :: "nat \<Rightarrow> state \<Rightarrow> state" where
  "removeNewImage index st =
     st\<lparr>imageFiles := removeAt index (imageFiles st),
        imagePreviewUrls := removeAt index (imagePreviewUrls st)\<rparr>"

definition removeExistingImage :: "nat \<Rightarrow> state \<Rightarrow> state" where
  "removeExistingImage index st = st\<lparr>existingImages := removeAt index (existingImages st)\<rparr>"

section \<open>Submission\<close>

text \<open>
  The error caught in \<open>uploadImages\<close>: \<open>err.response?.data?.error\<close> (absent when any link
  of the chain is undefined) and \<open>err.message\<close>.
\<close>

record request_error =
  response_data_error :: "jsstring option"
  err_message :: jsstring

text \<open>
  What the \<open>try\<close> block of \<open>uploadImages\<close> ends with: the \<open>fileUrl\<close> of each entry of
  \<open>response.data.files\<close>, in the order of the response, or a caught error. A response
  without a \<open>files\<close> array makes the \<open>map\<close> throw inside the same \<open>try\<close>, so it is a
  \<open>Rejected\<close> too.
\<close>

datatype upload_result = Resolved "jsstring list" | Rejected request_error

record payload =
  formFields :: formData
  ownerId :: "nat option"
  imageUrls :: "jsstring list"

datatype save_request = CreateTurf payload | UpdateTurf nat payload

datatype save_result = Saved | SaveRejected jsstring

text \<open>
  The two collaborators, as the answers they give to a request: \<open>api.post\<close> on
  \<open>/files/upload-multiple\<close> with the files of the form data, and \<open>turfService\<close>.
  \<open>SaveRejected m\<close> is a rejection whose error has the message \<open>m\<close>.
\<close>

record collaborators =
  post_upload :: "jsfile list \<Rightarrow> upload_result"
  save_turf :: "save_request \<Rightarrow> save_result"

text \<open>
  The props and context of the component that \<open>handleSubmit\<close> reads: \<open>turf.id\<close> when a
  turf is edited (\<open>None\<close> when the form creates one) and \<open>user.userId\<close> (\<open>None\<close> when
  \<open>user\<close> is null).
\<close>

record props =
  turf :: "nat option"
  user :: "nat option"

text \<open>
  What a submission does to the outside, in order (console output left aside).
\<close>

datatype effect = Post "jsfile list" | Save save_request | Alert jsstring | OnSuccess

definition cause :: "request_error \<Rightarrow> jsstring" where
  "cause err =
     (case response_data_error err of
        Some e \<Rightarrow> if e \<noteq> [] then e else err_message err
      | None \<Rightarrow> err_message err)"

text \<open>
  \<open>uploadImages\<close> returns the new URLs, or throws an \<open>Error\<close> whose message is on the
  left; the \<open>finally\<close> block resets \<open>uploadingImages\<close> on both paths.
\<close>

definition uploadImages ::
  "collaborators \<Rightarrow> state \<Rightarrow> (jsstring + jsstring list) \<times> state \<times> effect list" where
  "uploadImages c st =
     (if length (imageFiles st) = 0 then (Inr [], st, [])
      else
        (let st1 = st\<lparr>uploadingImages := True\<rparr>
         in case post_upload c (imageFiles st) of
              Resolved urls \<Rightarrow>
                (Inr urls, st1\<lparr>uploadingImages := False\<rparr>, [Post (imageFiles st)])
            | Rejected err \<Rightarrow>
                (Inl (str ''Failed to upload images: '' @ cause err),
                 st1\<lparr>uploadingImages := False\<rparr>, [Post (imageFiles st)])))"

text \<open>
  The \<open>catch\<close> of \<open>handleSubmit\<close>: \<open>setError(err.message || '...')\<close>, then the \<open>finally\<close>.
\<close>

definition catchSubmit :: "jsstring \<Rightarrow> state \<Rightarrow> state" where
  "catchSubmit msg st =
     (setError (if msg \<noteq> [] then msg else str ''Failed to save turf. Please try again.'') st)
       \<lparr>loading := False\<rparr>"

text \<open>
  The message of the TypeError that reading \<open>userId\<close> of a null \<open>user\<close> throws, in the
  wording of V8.
\<close>

definition nullUserMessage :: jsstring where
  "nullUserMessage = str ''Cannot read properties of null (reading 'userId')''"

definition handleSubmit :: "collaborators \<Rightarrow> props \<Rightarrow> state \<Rightarrow> state \<times> effect list" where
  "handleSubmit c p st =
     (case validateForm (setError [] st) of
        (False, st1) \<Rightarrow> (st1, [])
      | (True, st1) \<Rightarrow>
          (case uploadImages c (st1\<lparr>loading := True\<rparr>) of
             (Inl msg, st2, tr) \<Rightarrow> (catchSubmit msg st2, tr)
           | (Inr newImageUrls, st2, tr) \<Rightarrow>
               (let allImageUrls = existingImages st @ newImageUrls
                in case user p of
                     None \<Rightarrow> (catchSubmit nullUserMessage st2, tr)
                   | Some userId \<Rightarrow>
                       (let turfData = \<lparr>formFields = formData st, ownerId = Some userId,
                                        imageUrls = allImageUrls\<rparr>;
                            request =
                              (case turf p of
                                 Some turfId \<Rightarrow>
                                   UpdateTurf turfId
                                     \<lparr>formFields = formData st, ownerId = None,
                                      imageUrls = allImageUrls\<rparr>
                               | None \<Rightarrow> CreateTurf turfData)
                        in case save_turf c request of
                             SaveRejected msg \<Rightarrow> (catchSubmit msg st2, tr @ [Save request])
                           | Saved \<Rightarrow>
                               (st2\<lparr>loading := False\<rparr>,
                                tr @ [Save request,
                                      Alert (case turf p of
                                               Some turfId \<Rightarrow> str ''Turf updated successfully!''
                                             | None \<Rightarrow> str ''Turf created successfully!''),
                                      OnSuccess])))))"

fun payload_of :: "save_request \<Rightarrow> payload" where
  "payload_of (CreateTurf d) = d"
| "payload_of (UpdateTurf turfId d) = d"

text \<open>
  The upload batches and the save requests among the effects of a submission.
\<close>

definition posts :: "effect list \<Rightarrow> jsfile list list" where
  "posts tr = concat (map (\<lambda>e. case e of Post fs \<Rightarrow> [fs] | _ \<Rightarrow> []) tr)"

definition saves :: "effect list \<Rightarrow> save_request list" where
  "saves tr = concat (map (\<lambda>e. case e of Save r \<Rightarrow> [r] | _ \<Rightarrow> []) tr)"

section \<open>Reference resolution\<close>

text \<open>
  \<open>API_URL\<close>, from the build-time setting \<open>VITE_API_URL\<close> (\<open>None\<close> when it is not set).
\<close>

definition API_URL :: "jsstring option \<Rightarrow> jsstring" where
  "API_URL VITE_API_URL =
     (case VITE_API_URL of
        Some u \<Rightarrow> if u \<noteq> [] then u else str ''http://localhost:8080/api''
      | None \<Rightarrow> str ''http://localhost:8080/api'')"

text \<open>
  \<open>getImageUrl\<close>; \<open>None\<close> stands for \<open>null\<close> (and, as the argument, for \<open>undefined\<close> too).
  The function does not read \<open>API_URL\<close>.
\<close>

definition getImageUrl :: "jsstring option \<Rightarrow> jsstring option" where
  "getImageUrl imageUrl =
     (case imageUrl of
        None \<Rightarrow> None
      | Some u \<Rightarrow>
          if u = [] then None
          else if startsWith u (str ''http://'') \<or> startsWith u (str ''https://'') then Some u
          else if startsWith u (str ''/api'') then Some (str ''http://localhost:8080'' @ u)
          else Some (str ''http://localhost:8080/api/files/'' @ u))"

section \<open>The validation engine of the specification\<close>

text \<open>
  A decimal string: the whole string is an optional sign, then digits with an optional
  fraction or a fraction alone, then an optional exponent. Nothing may precede or follow
  the numeral.
\<close>

definition isExponent :: "jsstring \<Rightarrow> bool" where
  "isExponent r \<longleftrightarrow>
     (startsWith r (str ''e'') \<or> startsWith r (str ''E''))
     \<and> (let d = (if startsWith (tl r) (str ''+'') \<or> startsWith (tl r) (str ''-'')
                  then tl (tl r) else tl r)
        in d \<noteq> [] \<and> list_all isDigit d)"

definition isDecimalString :: "jsstring \<Rightarrow> bool" where
  "isDecimalString s \<longleftrightarrow>
     (let u = (if startsWith s (str ''-'') \<or> startsWith s (str ''+'') then tl s else s);
          ip = takeWhile isDigit u;
          r1 = dropWhile isDigit u;
          hasDot = startsWith r1 (str ''.'');
          fp = (if hasDot then takeWhile isDigit (tl r1) else []);
          r2 = (if hasDot then dropWhile isDigit (tl r1) else r1)
      in \<not> (ip = [] \<and> fp = []) \<and> (if r2 = [] then True else isExponent r2))"

text \<open>
  The price parses to a number greater than 0: it is a decimal string, and the number
  it denotes is positive. On a decimal string \<open>parseFloat\<close> reads the whole string, so
  its result is that number.
\<close>

definition parsesToPositive :: "jsstring \<Rightarrow> bool" where
  "parsesToPositive s \<longleftrightarrow> isDecimalString s \<and> num_gt_zero (parseFloat s)"

text \<open>
  The five rules in the words of the specification: the name is not blank after
  trimming, the phone has at least 10 characters, the location is not blank after
  trimming, the price is present and parses to a number greater than 0, and the start
  time is lexicographically before the end time. The first rule that fails gives the
  error.
\<close>

definition spec_validate :: "formData \<Rightarrow> validation_error option" where
  "spec_validate fd =
     (if \<not> trim (name fd) \<noteq> [] then Some EmptyName
      else if \<not> length (phone fd) \<ge> 10 then Some PhoneTooShort
      else if \<not> trim (location fd) \<noteq> [] then Some EmptyLocation
      else if \<not> (pricePerSlot fd \<noteq> [] \<and> parsesToPositive (pricePerSlot fd))
        then Some InvalidPrice
      else if \<not> js_lt (operatingStartTime fd) (operatingEndTime fd) then Some InvalidTimeRange
      else None)"

text \<open>
  What \<open>validateForm\<close> returns for an outcome of the engine.
\<close>

definition outcome :: "validation_error option \<Rightarrow> state \<Rightarrow> bool \<times> state" where
  "outcome r st = (case r of None \<Rightarrow> (True, st) | Some e \<Rightarrow> (False, setError (message e) st))"

section \<open>Sample inputs\<close>

definition sampleFields :: formData where
  "sampleFields =
     \<lparr>name = str ''Champions Ground'', phone = str ''9876543210'',
      location = str ''Coimbatore'', type = FOOTBALL, pricePerSlot = str ''500'',
      description = [], operatingStartTime = str ''06:00'',
      operatingEndTime = str ''22:00''\<rparr>"

definition sampleState :: state where
  "sampleState =
     \<lparr>formData = sampleFields, error = [], loading = False, imageFiles = [],
      existingImages = [], imagePreviewUrls = [], uploadingImages = False\<rparr>"

definition shortPhoneState :: state where
  "shortPhoneState = sampleState\<lparr>formData := sampleFields\<lparr>phone := str ''98765''\<rparr>\<rparr>"

definition zeroPriceState :: state where
  "zeroPriceState = sampleState\<lparr>formData := sampleFields\<lparr>pricePerSlot := str ''0''\<rparr>\<rparr>"

definition wordPriceState :: state where
  "wordPriceState = sampleState\<lparr>formData := sampleFields\<lparr>pricePerSlot := str ''abc''\<rparr>\<rparr>"

definition tailPriceState :: state where
  "tailPriceState = sampleState\<lparr>formData := sampleFields\<lparr>pricePerSlot := str ''12abc''\<rparr>\<rparr>"

definition freeLateState :: state where
  "freeLateState =
     sampleState\<lparr>formData := sampleFields\<lparr>pricePerSlot := str ''free'',
       operatingStartTime := str ''22:00'', operatingEndTime := str ''06:00''\<rparr>\<rparr>"

definition pitchPhoto :: jsfile where
  "pitchPhoto = \<lparr>file_name = str ''pitch.png'', file_type = str ''image/png'', file_size = 204800\<rparr>"

definition aerialPhoto :: jsfile where
  "aerialPhoto = \<lparr>file_name = str ''aerial.jpg'', file_type = str ''image/jpeg'', file_size = 20971520\<rparr>"

definition ratesSheet :: jsfile where
  "ratesSheet = \<lparr>file_name = str ''rates.pdf'', file_type = str ''application/pdf'', file_size = 1024\<rparr>"

definition nightPhoto :: jsfile where
  "nightPhoto = \<lparr>file_name = str ''night.webp'', file_type = str ''image/webp'', file_size = 10485760\<rparr>"

definition editState :: state where
  "editState = sampleState\<lparr>existingImages := [str ''/api/files/a.png'', str ''b.png'']\<rparr>"

definition pendingState :: state where
  "pendingState = sampleState\<lparr>existingImages := [str ''b.png''], imageFiles := [pitchPhoto]\<rparr>"

definition acceptAll :: collaborators where
  "acceptAll = \<lparr>post_upload = (\<lambda>fs. Resolved (map (\<lambda>f. str ''/api/files/'' @ file_name f) fs)),
                save_turf = (\<lambda>r. Saved)\<rparr>"


definition owner :: props where
  "owner = \<lparr>turf = None, user = Some 7\<rparr>"

definition editor :: props where
  "editor = \<lparr>turf = Some 3, user = Some 7\<rparr>"

section \<open>Results about validateForm\<close>

lemmas string_defs = str_def startsWith_def trim_def trimStart_def trimEnd_def isWhiteSpace_def
  js_ge_def

lemmas parse_defs = parseFloat_def parseExponent_def expDigits_def isDigit_def digitsValue_def
  roundsToZero_def

lemmas sample_defs = sampleState_def sampleFields_def

lemma setError_eq_iff: "setError a st = setError b st \<longleftrightarrow> a = b"
proof
  assume "setError a st = setError b st"
  then have "error (setError a st) = error (setError b st)" by simp
  then show "a = b" by (simp add: setError_def)
qed simp

text \<open>
  On anything but NaN the two comparisons with zero are complementary.
\<close>

lemma num_le_zero_iff: "n \<noteq> NaN \<Longrightarrow> num_le_zero n \<longleftrightarrow> \<not> num_gt_zero n"
  by (cases n) auto

text \<open>
  A decimal string starts with a sign, a digit or the point, so \<open>parseFloat\<close> strips
  nothing from it and reads a number.
\<close>

lemma whiteSpace_not_numeral:
  assumes "isWhiteSpace c"
  shows "\<not> isDigit c" and "c \<noteq> 0x2E" and "c \<noteq> 0x2D" and "c \<noteq> 0x2B"
proof -
  have "\<not> (0x2000 \<le> c \<and> c \<le> 0x39)"
  proof
    assume "0x2000 \<le> c \<and> c \<le> 0x39"
    then have "(0x2000 :: 16 word) \<le> 0x39" by (meson order_trans)
    then show False by simp
  qed
  with assms show "\<not> isDigit c" and "c \<noteq> 0x2E" and "c \<noteq> 0x2D" and "c \<noteq> 0x2B"
    by (auto simp add: isWhiteSpace_def isDigit_def)
qed

lemma trimStart_decimal:
  assumes "isDecimalString s"
  shows "trimStart s = s"
proof (cases s)
  case Nil
  then show ?thesis by (simp add: trimStart_def)
next
  case (Cons c cs)
  have "\<not> isWhiteSpace c"
  proof
    assume w: "isWhiteSpace c"
    note n = whiteSpace_not_numeral [OF w]
    from assms n show False
      by (simp add: isDecimalString_def Cons startsWith_def str_def Let_def)
  qed
  then show ?thesis by (simp add: trimStart_def Cons)
qed

lemma parseFloat_decimal:
  assumes "isDecimalString s"
  shows "parseFloat s \<noteq> NaN"
proof -
  define u where "u = (if startsWith s (str ''-'') \<or> startsWith s (str ''+'') then tl s else s)"
  define ip where "ip = takeWhile isDigit u"
  define r1 where "r1 = dropWhile isDigit u"
  define fp where "fp = (if startsWith r1 (str ''.'') then takeWhile isDigit (tl r1) else [])"
  define r2 where "r2 = (if startsWith r1 (str ''.'') then dropWhile isDigit (tl r1) else r1)"
  from assms have digits: "\<not> (ip = [] \<and> fp = [])"
    unfolding isDecimalString_def Let_def u_def ip_def r1_def fp_def by blast
  have "parseFloat s =
      (if startsWith u (str ''Infinity'') then Infinite (startsWith s (str ''-''))
       else if ip = [] \<and> fp = [] then NaN
       else Finite (startsWith s (str ''-'')) (digitsValue (ip @ fp))
              (parseExponent r2 - int (length fp)))"
    unfolding parseFloat_def Let_def trimStart_decimal [OF assms] u_def ip_def r1_def fp_def
      r2_def by (rule refl)
  with digits show ?thesis by (simp split: if_splits)
qed

lemma validateForm_outcome:
  assumes "pricePerSlot (formData st) = [] \<or> isDecimalString (pricePerSlot (formData st))"
  shows "validateForm st = outcome (spec_validate (formData st)) st"
  using assms
  by (auto simp add: validateForm_def spec_validate_def outcome_def parsesToPositive_def
      Let_def js_ge_def num_le_zero_iff parseFloat_decimal)

text \<open>
  C3. The claim does not hold on the code. With a non-blank name, a phone of 10 digits,
  a non-blank location, the price \<open>free\<close> and the start time \<open>22:00\<close> after the end time
  \<open>06:00\<close>, the first failing rule is the price rule: the price is present and does not
  parse to a number. \<open>validateForm\<close> passes over it, \<open>NaN <= 0\<close> being false, and returns
  the error of the time rule.
\<close>

theorem unparsable_price_reports_time_range:
  "trim (name (formData freeLateState)) \<noteq> []
   \<and> length (phone (formData freeLateState)) \<ge> 10
   \<and> trim (location (formData freeLateState)) \<noteq> []
   \<and> pricePerSlot (formData freeLateState) = str ''free''
   \<and> parseFloat (pricePerSlot (formData freeLateState)) = NaN
   \<and> spec_validate (formData freeLateState) = Some InvalidPrice
   \<and> validateForm freeLateState
       = (False, setError (str ''End time must be after start time'') freeLateState)
   \<and> \<not> fails_with freeLateState InvalidPrice"
  by (simp add: freeLateState_def sample_defs string_defs parse_defs spec_validate_def
      parsesToPositive_def isDecimalString_def fails_with_def validateForm_def
      setError_eq_iff Let_def)

text \<open>
  C4. The claim does not hold on the code. With the first three rules passing and the
  price \<open>abc\<close>, which is not empty and parses to no number, \<open>validateForm\<close> does not fail
  with InvalidPrice: \<open>NaN <= 0\<close> is false, the time rule passes and validation
  succeeds. Submitting the form for an existing turf then sends the price \<open>abc\<close> to
  \<open>updateTurf\<close>.
\<close>

theorem unparsable_price_accepted:
  "trim (name (formData wordPriceState)) \<noteq> []
   \<and> length (phone (formData wordPriceState)) \<ge> 10
   \<and> trim (location (formData wordPriceState)) \<noteq> []
   \<and> pricePerSlot (formData wordPriceState) = str ''abc''
   \<and> parseFloat (pricePerSlot (formData wordPriceState)) = NaN
   \<and> \<not> parsesToPositive (pricePerSlot (formData wordPriceState))
   \<and> \<not> fails_with wordPriceState InvalidPrice
   \<and> validateForm wordPriceState = (True, wordPriceState)
   \<and> snd (handleSubmit acceptAll editor wordPriceState)
       = [Save (UpdateTurf 3 \<lparr>formFields = formData wordPriceState, ownerId = None,
                               imageUrls = []\<rparr>),
          Alert (str ''Turf updated successfully!''), OnSuccess]"
proof -
  have p: "parseFloat (str ''abc'') = NaN"
    by (simp add: string_defs parse_defs Let_def)
  have v: "validateForm st = (True, st)"
    if "formData st = sampleFields\<lparr>pricePerSlot := str ''abc''\<rparr>" for st
    using that by (simp add: validateForm_def sampleFields_def string_defs parse_defs Let_def)
  have f: "formData wordPriceState = sampleFields\<lparr>pricePerSlot := str ''abc''\<rparr>"
    by (simp add: wordPriceState_def sampleState_def)
  have vs: "validateForm (setError [] wordPriceState) = (True, setError [] wordPriceState)"
    by (rule v) (simp add: setError_def f)
  have up: "uploadImages acceptAll (setError [] wordPriceState\<lparr>loading := True\<rparr>)
      = (Inr [], setError [] wordPriceState\<lparr>loading := True\<rparr>, [])"
    by (simp add: uploadImages_def setError_def wordPriceState_def sampleState_def)
  have run: "snd (handleSubmit acceptAll editor wordPriceState)
       = [Save (UpdateTurf 3 \<lparr>formFields = formData wordPriceState, ownerId = None,
                               imageUrls = []\<rparr>),
          Alert (str ''Turf updated successfully!''), OnSuccess]"
    by (simp add: handleSubmit_def vs up)
       (simp add: wordPriceState_def sampleState_def editor_def acceptAll_def)
  have n: "\<not> fails_with wordPriceState InvalidPrice"
    by (simp add: fails_with_def v [OF f])
  have r: "trim (name (formData wordPriceState)) \<noteq> []
      \<and> length (phone (formData wordPriceState)) \<ge> 10
      \<and> trim (location (formData wordPriceState)) \<noteq> []
      \<and> pricePerSlot (formData wordPriceState) = str ''abc''"
    by (simp add: f sampleFields_def string_defs)
  have d: "\<not> parsesToPositive (pricePerSlot (formData wordPriceState))"
    by (simp add: f parsesToPositive_def p)
  from r p d n v [OF f] run show ?thesis by simp
qed

text \<open>
  The slip is confined to prices that are not decimal strings: on an empty price or a
  decimal string \<open>validateForm\<close> returns the error of the first failing rule, and
  succeeds when all five rules hold. A price with a numeral in front, such as \<open>12abc\<close>,
  is read as that numeral.
\<close>

lemma validateForm_first_failing_rule:
  assumes "pricePerSlot (formData st) = [] \<or> isDecimalString (pricePerSlot (formData st))"
  shows "validateForm st = outcome (spec_validate (formData st)) st"
  using assms by (rule validateForm_outcome)

lemma invalid_price_on_decimal_strings:
  assumes "trim (name (formData st)) \<noteq> []"
    and "length (phone (formData st)) \<ge> 10"
    and "trim (location (formData st)) \<noteq> []"
    and "pricePerSlot (formData st) = [] \<or> isDecimalString (pricePerSlot (formData st))"
  shows "fails_with st InvalidPrice \<longleftrightarrow>
           pricePerSlot (formData st) = [] \<or> \<not> parsesToPositive (pricePerSlot (formData st))"
proof -
  have "validateForm st = outcome (spec_validate (formData st)) st"
    using assms(4) by (rule validateForm_outcome)
  with assms(1-3) show ?thesis
    by (auto simp add: fails_with_def spec_validate_def outcome_def setError_eq_iff str_def)
qed

lemma zero_price_rejected:
  "isDecimalString (str ''0'') \<and> fails_with zeroPriceState InvalidPrice"
  by (simp add: fails_with_def validateForm_def zeroPriceState_def sample_defs string_defs
      parse_defs isDecimalString_def Let_def)

lemma numeral_prefix_accepted:
  "\<not> isDecimalString (str ''12abc'')
   \<and> parseFloat (str ''12abc'') = Finite False 12 0
   \<and> spec_validate (formData tailPriceState) = Some InvalidPrice
   \<and> validateForm tailPriceState = (True, tailPriceState)"
  by (simp add: tailPriceState_def sample_defs string_defs parse_defs spec_validate_def
      parsesToPositive_def isDecimalString_def isExponent_def validateForm_def Let_def)

text \<open>
  C8. When the name is not blank, validation fails with PhoneTooShort exactly when
  the phone string has fewer than 10 code units; what the code units are plays no role.
\<close>

theorem phone_too_short_iff:
  assumes "trim (name (formData st)) \<noteq> []"
  shows "fails_with st PhoneTooShort \<longleftrightarrow> length (phone (formData st)) < 10"
proof
  assume "length (phone (formData st)) < 10"
  with assms show "fails_with st PhoneTooShort"
    by (simp add: fails_with_def validateForm_def Let_def)
next
  assume f: "fails_with st PhoneTooShort"
  show "length (phone (formData st)) < 10"
  proof (rule ccontr)
    assume "\<not> length (phone (formData st)) < 10"
    with assms f show False
      by (auto simp add: fails_with_def validateForm_def Let_def setError_eq_iff str_def
          split: if_splits)
  qed
qed

theorem phone_too_short_iff_witness:
  "trim (name (formData shortPhoneState)) \<noteq> []
   \<and> fails_with shortPhoneState PhoneTooShort
   \<and> length (phone (formData shortPhoneState)) = 5"
  using phone_too_short_iff [of shortPhoneState]
  by (simp add: shortPhoneState_def sample_defs string_defs)

section \<open>Results about image selection\<close>

lemmas file_defs = pitchPhoto_def aerialPhoto_def ratesSheet_def nightPhoto_def

lemma imageFiles_setError: "imageFiles (setError m st) = imageFiles st"
  by (simp add: setError_def)

lemma imageFiles_fold_setError: "imageFiles (fold setError ws st) = imageFiles st"
  by (induction ws arbitrary: st) (simp_all add: imageFiles_setError)

lemma error_setError: "error (setError m st) = m"
  by (simp add: setError_def)

text \<open>
  Every element of a joined list occurs in the result as a contiguous piece.
\<close>

lemma join_sublist: "x \<in> set xs \<Longrightarrow> sublist x (join sep xs)"
proof (induction sep xs rule: join.induct)
  case (1 sep)
  then show ?case by simp
next
  case (2 sep y)
  then show ?case by simp
next
  case (3 sep y z zs)
  show ?case
  proof (cases "x = y")
    case True
    then show ?thesis by (simp add: sublist_def) (metis append_Nil)
  next
    case False
    with 3 have "sublist x (join sep (z # zs))" by simp
    then obtain ps ss where "join sep (z # zs) = ps @ x @ ss"
      by (auto simp: sublist_def)
    then have "join sep (y # z # zs) = (y @ sep @ ps) @ x @ ss" by simp
    then show ?thesis unfolding sublist_def by blast
  qed
qed

lemma sublist_oversizeMessage:
  assumes "f \<in> set fs"
  shows "sublist (file_name f) (oversizeMessage fs)"
proof -
  from assms have "sublist (file_name f) (join (str '', '') (map file_name fs))"
    by (intro join_sublist) simp
  then obtain ps ss where "join (str '', '') (map file_name fs) = ps @ file_name f @ ss"
    by (auto simp: sublist_def)
  then have "oversizeMessage fs = (str ''Some files exceed 10MB limit: '' @ ps) @ file_name f @ ss"
    by (simp add: oversizeMessage_def)
  then show ?thesis unfolding sublist_def by blast
qed

lemma oversized_iff: "oversized f \<longleftrightarrow> file_size f > 10485760"
  by (simp add: oversized_def)

text \<open>
  C5. When at least one image file of the selected batch is larger than 10 MiB
  (10485760 bytes), the pending list stays as it was, the handler ends with exactly one
  aggregate warning, made after the per-file warnings and left as the error, and the
  name of every oversized image file of the batch occurs in that warning.
\<close>

theorem oversized_batch_rejected:
  assumes "\<exists>f \<in> set files. isImage f \<and> file_size f > 10485760"
  shows "imageFiles (fst (handleImageSelect files st)) = imageFiles st
    \<and> snd (handleImageSelect files st)
        = map notImageMessage (filter (\<lambda>f. \<not> isImage f) files)
          @ [oversizeMessage (filter oversized (filter isImage files))]
    \<and> error (fst (handleImageSelect files st))
        = oversizeMessage (filter oversized (filter isImage files))
    \<and> (\<forall>f \<in> set files. isImage f \<and> file_size f > 10485760 \<longrightarrow>
          sublist (file_name f) (error (fst (handleImageSelect files st))))"
proof -
  from assms have ne: "filter oversized (filter isImage files) \<noteq> []"
    by (auto simp add: filter_empty_conv oversized_iff)
  then have run: "handleImageSelect files st
      = (setError (oversizeMessage (filter oversized (filter isImage files)))
           (fold setError (map notImageMessage (filter (\<lambda>f. \<not> isImage f) files)) st),
         map notImageMessage (filter (\<lambda>f. \<not> isImage f) files)
           @ [oversizeMessage (filter oversized (filter isImage files))])"
    by (simp add: handleImageSelect_def Let_def)
  have names: "sublist (file_name f) (oversizeMessage (filter oversized (filter isImage files)))"
    if "f \<in> set files" "isImage f" "file_size f > 10485760" for f
    using that by (intro sublist_oversizeMessage) (simp add: oversized_iff)
  show ?thesis
    using names by (simp add: run imageFiles_setError imageFiles_fold_setError error_setError)
qed

theorem oversized_batch_rejected_witness:
  "aerialPhoto \<in> set [pitchPhoto, ratesSheet, aerialPhoto]
   \<and> isImage aerialPhoto \<and> file_size aerialPhoto > 10485760
   \<and> imageFiles (fst (handleImageSelect [pitchPhoto, ratesSheet, aerialPhoto] sampleState)) = []
   \<and> snd (handleImageSelect [pitchPhoto, ratesSheet, aerialPhoto] sampleState)
       = [str ''rates.pdf is not a valid image file'',
          str ''Some files exceed 10MB limit: aerial.jpg'']"
  using oversized_batch_rejected [of "[pitchPhoto, ratesSheet, aerialPhoto]" sampleState]
  by (simp add: file_defs sample_defs isImage_def oversized_def notImageMessage_def
      oversizeMessage_def str_def startsWith_def)

text \<open>
  C6. For every selected batch the handler first makes one warning for each file whose
  media type does not start with \<open>image/\<close>, in selection order, and never appends such
  a file. When every image file of the batch is within 10 MiB, the image files are the
  accepted files: they are appended to the pending list in selection order, the
  pending count grows by exactly their number, and no other warning is made. When some
  image file is larger, no file is accepted and the pending list stays as it was.
\<close>

theorem images_appended_in_order:
  "take (length (filter (\<lambda>f. \<not> isImage f) files)) (snd (handleImageSelect files st))
     = map notImageMessage (filter (\<lambda>f. \<not> isImage f) files)
   \<and> (\<forall>f \<in> set (imageFiles (fst (handleImageSelect files st))).
         f \<in> set (imageFiles st) \<or> isImage f)
   \<and> ((\<forall>f \<in> set files. isImage f \<longrightarrow> file_size f \<le> 10485760) \<longrightarrow>
         imageFiles (fst (handleImageSelect files st)) = imageFiles st @ filter isImage files
         \<and> length (imageFiles (fst (handleImageSelect files st)))
             = length (imageFiles st) + length (filter isImage files)
         \<and> snd (handleImageSelect files st)
             = map notImageMessage (filter (\<lambda>f. \<not> isImage f) files))
   \<and> ((\<exists>f \<in> set files. isImage f \<and> file_size f > 10485760) \<longrightarrow>
         imageFiles (fst (handleImageSelect files st)) = imageFiles st)"
proof -
  have none: "filter oversized (filter isImage files) = []"
    if "\<forall>f \<in> set files. isImage f \<longrightarrow> file_size f \<le> 10485760"
    using that by (auto simp add: filter_empty_conv oversized_iff)
  have some: "filter oversized (filter isImage files) \<noteq> []"
    if "\<exists>f \<in> set files. isImage f \<and> file_size f > 10485760"
    using that by (auto simp add: filter_empty_conv oversized_iff)
  have warned: "take (length (filter (\<lambda>f. \<not> isImage f) files)) (snd (handleImageSelect files st))
      = map notImageMessage (filter (\<lambda>f. \<not> isImage f) files)"
    by (simp add: handleImageSelect_def Let_def)
  have images: "\<forall>f \<in> set (imageFiles (fst (handleImageSelect files st))).
      f \<in> set (imageFiles st) \<or> isImage f"
    by (auto simp add: handleImageSelect_def Let_def imageFiles_setError
        imageFiles_fold_setError)
  have within: "imageFiles (fst (handleImageSelect files st)) = imageFiles st @ filter isImage files
      \<and> length (imageFiles (fst (handleImageSelect files st)))
          = length (imageFiles st) + length (filter isImage files)
      \<and> snd (handleImageSelect files st)
          = map notImageMessage (filter (\<lambda>f. \<not> isImage f) files)"
    if "\<forall>f \<in> set files. isImage f \<longrightarrow> file_size f \<le> 10485760"
    using none [OF that]
    by (simp add: handleImageSelect_def Let_def imageFiles_fold_setError)
  have beyond: "imageFiles (fst (handleImageSelect files st)) = imageFiles st"
    if "\<exists>f \<in> set files. isImage f \<and> file_size f > 10485760"
    using some [OF that]
    by (simp add: handleImageSelect_def Let_def imageFiles_setError imageFiles_fold_setError)
  from warned images within beyond show ?thesis by blast
qed

theorem images_appended_in_order_witness:
  "isImage pitchPhoto \<and> file_size pitchPhoto \<le> 10485760
   \<and> \<not> isImage ratesSheet
   \<and> isImage nightPhoto \<and> file_size nightPhoto \<le> 10485760
   \<and> handleImageSelect [pitchPhoto, ratesSheet, nightPhoto] sampleState
       = (sampleState\<lparr>error := str ''rates.pdf is not a valid image file'',
                      imageFiles := [pitchPhoto, nightPhoto]\<rparr>,
          [str ''rates.pdf is not a valid image file''])"
  using images_appended_in_order [of "[pitchPhoto, ratesSheet, nightPhoto]" sampleState]
  by (simp add: file_defs sample_defs isImage_def oversized_def notImageMessage_def
      handleImageSelect_def setError_def Let_def str_def startsWith_def)

text \<open>
  C9. An image file of exactly 10485760 bytes is not oversized, the comparison being
  strict: selected alone it is appended to the pending list without a warning, and
  selected in any batch without an oversized image it ends up in the pending list.
\<close>

theorem limit_size_accepted:
  assumes "isImage f" and "file_size f = 10485760"
  shows "\<not> oversized f
    \<and> handleImageSelect [f] st = (st\<lparr>imageFiles := imageFiles st @ [f]\<rparr>, [])
    \<and> (\<forall>files. f \<in> set files \<and> (\<forall>g \<in> set files. isImage g \<longrightarrow> \<not> oversized g) \<longrightarrow>
          f \<in> set (imageFiles (fst (handleImageSelect files st))))"
proof -
  have a: "\<not> oversized f" using assms(2) by (simp add: oversized_def)
  have b: "handleImageSelect [f] st = (st\<lparr>imageFiles := imageFiles st @ [f]\<rparr>, [])"
    using assms(1) a by (simp add: handleImageSelect_def Let_def)
  have c: "f \<in> set (imageFiles (fst (handleImageSelect files st)))"
    if "f \<in> set files" "\<forall>g \<in> set files. isImage g \<longrightarrow> \<not> oversized g" for files
  proof -
    from that(2) have "filter oversized (filter isImage files) = []"
      by (auto simp add: filter_empty_conv)
    with that(1) assms(1) show ?thesis
      by (simp add: handleImageSelect_def Let_def imageFiles_fold_setError)
  qed
  from a b c show ?thesis by blast
qed

theorem limit_size_accepted_witness:
  "isImage nightPhoto \<and> file_size nightPhoto = 10485760
   \<and> handleImageSelect [nightPhoto] sampleState = (sampleState\<lparr>imageFiles := [nightPhoto]\<rparr>, [])"
  using limit_size_accepted [of nightPhoto sampleState]
  by (simp add: file_defs sample_defs isImage_def str_def startsWith_def)

section \<open>Results about submission\<close>

lemma fst_validateForm_setError: "fst (validateForm (setError m st)) = fst (validateForm st)"
  by (simp add: validateForm_def setError_def Let_def)

lemma validateForm_passes: "fst (validateForm st) \<Longrightarrow> validateForm st = (True, st)"
  by (auto simp add: validateForm_def Let_def split: if_splits)




lemma validateForm_sampleFields:
  assumes "formData st = sampleFields"
  shows "validateForm st = (True, st)"
  using assms
  by (simp add: validateForm_def sampleFields_def string_defs parse_defs Let_def)


text \<open>
  Removing a retained reference keeps the others in their order.
\<close>

lemma removeAt_enumerate:
  "map snd (filter (\<lambda>(j, x). j \<noteq> n + i) (enumerate n xs)) = take i xs @ drop (Suc i) xs"
proof (induction xs arbitrary: n i)
  case Nil
  then show ?case by simp
next
  case (Cons x xs)
  show ?case
  proof (cases i)
    case 0
    have "filter (\<lambda>(j, x). j \<noteq> n) (enumerate (Suc n) xs) = enumerate (Suc n) xs"
      by (rule filter_True) (auto simp add: in_set_enumerate_eq)
    with 0 show ?thesis by simp
  next
    case (Suc k)
    with Cons.IH [of "Suc n" k] show ?thesis by simp
  qed
qed

lemma removeAt_take_drop: "removeAt i xs = take i xs @ drop (Suc i) xs"
  using removeAt_enumerate [of 0 i xs] by (simp add: removeAt_def)

lemma existingImages_removeExistingImage:
  "existingImages (removeExistingImage i st)
     = take i (existingImages st) @ drop (Suc i) (existingImages st)"
  by (simp add: removeExistingImage_def removeAt_take_drop)

text \<open>
  C2. For every submission that passes validation: with no pending file nothing is
  uploaded and every save request carries exactly the retained references, in their
  order; with pending files whose upload returns the references \<open>urls\<close>, the batch is
  uploaded once and every save request carries the retained references followed by
  \<open>urls\<close>. In both cases, with a signed-in user, exactly one save request is sent.
\<close>

theorem payload_image_list:
  assumes "fst (validateForm st)"
  shows "(imageFiles st = [] \<longrightarrow>
            posts (snd (handleSubmit c p st)) = []
            \<and> (\<forall>r \<in> set (saves (snd (handleSubmit c p st))).
                  imageUrls (payload_of r) = existingImages st))
    \<and> (\<forall>urls. imageFiles st \<noteq> [] \<and> post_upload c (imageFiles st) = Resolved urls \<longrightarrow>
            posts (snd (handleSubmit c p st)) = [imageFiles st]
            \<and> (\<forall>r \<in> set (saves (snd (handleSubmit c p st))).
                  imageUrls (payload_of r) = existingImages st @ urls))
    \<and> (user p \<noteq> None
          \<and> (imageFiles st = [] \<or> (\<exists>urls. post_upload c (imageFiles st) = Resolved urls)) \<longrightarrow>
            length (saves (snd (handleSubmit c p st))) = 1)"
proof -
  from assms have v: "validateForm (setError [] st) = (True, setError [] st)"
    by (intro validateForm_passes) (simp add: fst_validateForm_setError)
  show ?thesis
  proof (cases "imageFiles st = []")
    case True
    then have up: "uploadImages c (setError [] st\<lparr>loading := True\<rparr>)
        = (Inr [], setError [] st\<lparr>loading := True\<rparr>, [])"
      by (simp add: uploadImages_def setError_def)
    show ?thesis
      using True
      by (simp add: handleSubmit_def v up posts_def saves_def Let_def
          split: option.splits save_result.splits)
  next
    case False
    show ?thesis
    proof (cases "post_upload c (imageFiles st)")
      case (Resolved urls)
      with False have up: "uploadImages c (setError [] st\<lparr>loading := True\<rparr>)
          = (Inr urls, setError [] st\<lparr>loading := True, uploadingImages := False\<rparr>,
             [Post (imageFiles st)])"
        by (simp add: uploadImages_def setError_def Let_def)
      show ?thesis
        using False Resolved
        by (simp add: handleSubmit_def v up posts_def saves_def Let_def
            split: option.splits save_result.splits)
    next
      case (Rejected err)
      with False show ?thesis by simp
    qed
  qed
qed

theorem payload_image_list_witness:
  "fst (validateForm editState) \<and> imageFiles editState = []
   \<and> snd (handleSubmit acceptAll editor editState)
       = [Save (UpdateTurf 3 \<lparr>formFields = sampleFields, ownerId = None,
                               imageUrls = [str ''/api/files/a.png'', str ''b.png'']\<rparr>),
          Alert (str ''Turf updated successfully!''), OnSuccess]
   \<and> fst (validateForm pendingState) \<and> imageFiles pendingState \<noteq> []
   \<and> snd (handleSubmit acceptAll owner pendingState)
       = [Post [pitchPhoto],
          Save (CreateTurf \<lparr>formFields = sampleFields, ownerId = Some 7,
                            imageUrls = [str ''b.png'', str ''/api/files/pitch.png'']\<rparr>),
          Alert (str ''Turf created successfully!''), OnSuccess]"
proof -
  have e: "formData editState = sampleFields" "formData pendingState = sampleFields"
    by (simp_all add: editState_def pendingState_def sampleState_def)
  have ve: "validateForm (setError [] editState) = (True, setError [] editState)"
    and vp: "validateForm (setError [] pendingState) = (True, setError [] pendingState)"
    by (rule validateForm_sampleFields, simp add: setError_def e)+
  have ue: "uploadImages acceptAll (setError [] editState\<lparr>loading := True\<rparr>)
      = (Inr [], setError [] editState\<lparr>loading := True\<rparr>, [])"
    by (simp add: uploadImages_def setError_def editState_def sampleState_def)
  have up: "uploadImages acceptAll (setError [] pendingState\<lparr>loading := True\<rparr>)
      = (Inr [str ''/api/files/pitch.png''],
         setError [] pendingState\<lparr>loading := True, uploadingImages := False\<rparr>,
         [Post [pitchPhoto]])"
    by (simp add: uploadImages_def setError_def pendingState_def sampleState_def acceptAll_def
        pitchPhoto_def str_def Let_def)
  have re: "snd (handleSubmit acceptAll editor editState)
       = [Save (UpdateTurf 3 \<lparr>formFields = sampleFields, ownerId = None,
                               imageUrls = [str ''/api/files/a.png'', str ''b.png'']\<rparr>),
          Alert (str ''Turf updated successfully!''), OnSuccess]"
    by (simp add: handleSubmit_def ve ue e) (simp add: editState_def sampleState_def editor_def acceptAll_def)
  have rp: "snd (handleSubmit acceptAll owner pendingState)
       = [Post [pitchPhoto],
          Save (CreateTurf \<lparr>formFields = sampleFields, ownerId = Some 7,
                            imageUrls = [str ''b.png'', str ''/api/files/pitch.png'']\<rparr>),
          Alert (str ''Turf created successfully!''), OnSuccess]"
    by (simp add: handleSubmit_def vp up e) (simp add: pendingState_def sampleState_def owner_def acceptAll_def)
  have f: "imageFiles editState = []" "imageFiles pendingState \<noteq> []"
    by (simp_all add: editState_def pendingState_def sampleState_def)
  have v: "fst (validateForm editState)" "fst (validateForm pendingState)"
    by (simp_all add: validateForm_sampleFields e)
  from payload_image_list [OF v(1), of acceptAll editor]
    payload_image_list [OF v(2), of acceptAll owner]
  show ?thesis using re rp f v by simp
qed

section \<open>Results about reference resolution\<close>

text \<open>
  The configured host is the \<open>host\<close> with \<open>API_URL = host + '/api'\<close>; in the default
  configuration, where \<open>VITE_API_URL\<close> is not set, it is \<open>http://localhost:8080\<close>.
\<close>

lemma default_host:
  assumes "API_URL None = host @ str ''/api''"
  shows "host = str ''http://localhost:8080''"
proof -
  have "API_URL None = str ''http://localhost:8080'' @ str ''/api''"
    by (simp add: API_URL_def str_def)
  with assms have "host @ str ''/api'' = str ''http://localhost:8080'' @ str ''/api''"
    by simp
  then show ?thesis by (simp only: append_same_eq)
qed

text \<open>
  C7, amended. In the default configuration, for every non-empty image reference,
  \<open>getImageUrl\<close> returns the reference unchanged when it begins with \<open>http://\<close> or
  \<open>https://\<close>, prefixes the configured host to it when it begins with \<open>/api\<close>, and
  otherwise puts it under the \<open>/api/files/\<close> path of the configured host; so
  \<open>/api/files/z.png\<close> and \<open>z.png\<close> both resolve to \<open>/api/files/z.png\<close> on that host.
\<close>

theorem reference_resolution:
  assumes "u \<noteq> []" and "API_URL None = host @ str ''/api''"
  shows "getImageUrl (Some u) =
           (if startsWith u (str ''http://'') \<or> startsWith u (str ''https://'') then Some u
            else if startsWith u (str ''/api'') then Some (host @ u)
            else Some (host @ str ''/api/files/'' @ u))
    \<and> getImageUrl (Some (str ''http://x/y.png'')) = Some (str ''http://x/y.png'')
    \<and> getImageUrl (Some (str ''/api/files/z.png'')) = Some (host @ str ''/api/files/z.png'')
    \<and> getImageUrl (Some (str ''z.png'')) = Some (host @ str ''/api/files/z.png'')"
proof -
  from assms(2) have h: "host = str ''http://localhost:8080''"
    by (rule default_host)
  from assms(1) show ?thesis
    unfolding h by (simp add: getImageUrl_def str_def startsWith_def)
qed

theorem reference_resolution_witness:
  "str ''turf-7/front.jpg'' \<noteq> []
   \<and> API_URL None = str ''http://localhost:8080'' @ str ''/api''
   \<and> getImageUrl (Some (str ''turf-7/front.jpg''))
       = Some (str ''http://localhost:8080/api/files/turf-7/front.jpg'')"
  using reference_resolution [of "str ''turf-7/front.jpg''" "str ''http://localhost:8080''"]
  by (simp add: API_URL_def str_def startsWith_def)

text \<open>
  As stated for every configuration and every reference, C7 fails. With \<open>VITE_API_URL\<close>
  set to \<open>https://turf.example.com/api\<close> the configured host is
  \<open>https://turf.example.com\<close>, and \<open>z.png\<close> still resolves to
  \<open>http://localhost:8080/api/files/z.png\<close>: the function does not read \<open>API_URL\<close>. And the
  empty reference resolves to \<open>null\<close>, not to a URL under \<open>/api/files/\<close>.
\<close>

theorem reference_resolution_counterexample:
  "API_URL (Some (str ''https://turf.example.com/api''))
     = str ''https://turf.example.com'' @ str ''/api''
   \<and> getImageUrl (Some (str ''z.png''))
       \<noteq> Some (str ''https://turf.example.com'' @ str ''/api/files/'' @ str ''z.png'')
   \<and> getImageUrl (Some (str ''z.png'')) = Some (str ''http://localhost:8080/api/files/z.png'')
   \<and> getImageUrl (Some []) = None"
  by (simp add: getImageUrl_def API_URL_def str_def startsWith_def)

text \<open>
  C10. For \<open>null\<close> and for the empty string \<open>getImageUrl\<close> returns \<open>null\<close>.
\<close>

theorem no_reference_gives_null:
  "getImageUrl None = None \<and> getImageUrl (Some []) = None"
  by (simp add: getImageUrl_def)

end
